theory Spec2Isabelle
  imports Main "HOL-Library.Word"
begin

section \<open>The SLP client core (tools/slp/SLPClientCore.cpp)\<close>

subsection \<open>Data model\<close>

text \<open>
  Heap objects are named by their address. A pointer is an \<open>addr option\<close>, where
  \<open>None\<close> is the null pointer.
\<close>

type_synonym addr = nat

text \<open>
  The RPC controller as the completion handlers read it: \<open>Failed()\<close> and
  \<open>ErrorText()\<close>. The two are independent fields; the handlers never test the text.
\<close>

record SimpleRpcController =
  Failed :: bool
  ErrorText :: string

text \<open>
  The protocol messages and \<open>SLPService\<close>. SLPClientCore.cpp only includes their
  declarations (SLP.pb.h, SLPClientCore.h): the fields are the ones its accessor calls
  name. The integer fields the handlers read from a reply, \<open>error_code\<close> and
  \<open>lifetime\<close>, are protocol-buffer scalars, whose smallest width is 32 bits; the
  callback's code and the lifetime of an \<open>SLPService\<close> are \<open>uint16_t\<close>, so reading
  them narrows. The lifetime of a registration request is written from a \<open>uint16_t\<close>,
  which widening leaves as it is: it is kept at the width of the value stored.
\<close>

record ServiceRegistration =
  reg_url :: string
  reg_scope :: "string list"
  reg_lifetime :: "16 word"
  reg_persistent :: bool

record ServiceDeRegistration =
  dereg_url :: string
  dereg_scope :: "string list"

record ServiceRequest =
  req_service_type :: string
  req_scope :: "string list"

record ServiceAck =
  error_code :: "32 word"

record URLEntry =
  url :: string
  lifetime :: "32 word"

record ServiceReply =
  url_entry :: "URLEntry list"

datatype SLPService = SLPService (service_url: string) (service_lifetime: "16 word")

text \<open>
  \<open>register_arg\<close> and \<open>find_arg\<close>: the record that correlates one outstanding call,
  built by \<open>NewArgs\<close> from the controller, the reply slot and the caller's callback.
\<close>

record 'reply rpc_arg =
  controller :: SimpleRpcController
  reply :: 'reply
  callback :: "addr option"

type_synonym register_arg = "ServiceAck rpc_arg"
type_synonym find_arg = "ServiceReply rpc_arg"

definition NewArgs :: "SimpleRpcController \<Rightarrow> 'reply \<Rightarrow> addr option \<Rightarrow> 'reply rpc_arg" where
  "NewArgs c r cb = \<lparr>controller = c, reply = r, callback = cb\<rparr>"

text \<open>What a member function does to the world outside the client object, in order.\<close>

datatype event =
    New addr
  | Delete addr
  | Close addr
  | Stub_RegisterService "addr option" ServiceRegistration register_arg
  | Stub_DeRegisterService "addr option" ServiceDeRegistration register_arg
  | Stub_FindService "addr option" ServiceRequest find_arg
  | Run_register addr string "16 word"
  | Run_find addr string "SLPService list"
  | FreeArgs_register register_arg
  | FreeArgs_find find_arg

record SLPClientCore =
  m_descriptor :: addr
  m_channel :: "addr option"
  m_stub :: "addr option"
  m_connected :: bool

text \<open>The constructor.\<close>

definition SLPClientCore :: "addr \<Rightarrow> SLPClientCore" where
  "SLPClientCore descriptor =
     \<lparr>m_descriptor = descriptor, m_channel = None, m_stub = None, m_connected = False\<rparr>"

text \<open>\<open>new\<close> yielding pointer \<open>p\<close>, and \<open>delete p\<close>; deleting the null pointer does nothing.\<close>

definition new :: "addr option \<Rightarrow> event list" where
  "new p = (case p of None \<Rightarrow> [] | Some a \<Rightarrow> [New a])"

definition delete :: "addr option \<Rightarrow> event list" where
  "delete p = (case p of None \<Rightarrow> [] | Some a \<Rightarrow> [Delete a])"

subsection \<open>Connection lifecycle\<close>

text \<open>
  \<open>Setup\<close>. The two arguments are what the two \<open>new\<close> expressions yield; the code tests
  both for null. The result is the return value, the client afterwards and the events.
\<close>

definition Setup ::
  "addr option \<Rightarrow> addr option \<Rightarrow> SLPClientCore \<Rightarrow> bool \<times> SLPClientCore \<times> event list" where
  "Setup new_channel new_stub s =
     (if m_connected s then (False, s, [])
      else
        let s1 = s\<lparr>m_channel := new_channel\<rparr>; e1 = new new_channel in
        if m_channel s1 = None then (False, s1, e1)
        else
          let s2 = s1\<lparr>m_stub := new_stub\<rparr>; e2 = e1 @ new new_stub in
          if m_stub s2 = None then (False, s2, e2 @ delete (m_channel s2))
          else (True, s2\<lparr>m_connected := True\<rparr>, e2))"

text \<open>\<open>Stop\<close>. Its last statement is \<open>return 0\<close>.\<close>

definition Stop :: "SLPClientCore \<Rightarrow> bool \<times> SLPClientCore \<times> event list" where
  "Stop s =
     (let e = (if m_connected s
               then [Close (m_descriptor s)] @ delete (m_channel s) @ delete (m_stub s)
               else [])
      in (False, s\<lparr>m_connected := False\<rparr>, e))"

text \<open>Observers of an event list.\<close>

fun outstanding :: "event list \<Rightarrow> addr list" where
  "outstanding [] = []"
| "outstanding (New a # es) =
     (if Delete a \<in> set es then outstanding es else a # outstanding es)"
| "outstanding (e # es) = outstanding es"

fun is_Run :: "event \<Rightarrow> bool" where
  "is_Run (Run_register cb err code) = True"
| "is_Run (Run_find cb err services) = True"
| "is_Run e = False"

fun is_Stub_call :: "event \<Rightarrow> bool" where
  "is_Stub_call (Stub_RegisterService st rq a) = True"
| "is_Stub_call (Stub_DeRegisterService st rq a) = True"
| "is_Stub_call (Stub_FindService st rq a) = True"
| "is_Stub_call e = False"

fun is_FreeArgs :: "event \<Rightarrow> bool" where
  "is_FreeArgs (FreeArgs_register a) = True"
| "is_FreeArgs (FreeArgs_find a) = True"
| "is_FreeArgs e = False"

subsection \<open>Issuing requests\<close>

text \<open>Default-constructed objects, and \<open>add_scope\<close> on each request message.\<close>

definition new_SimpleRpcController :: SimpleRpcController where
  "new_SimpleRpcController = \<lparr>Failed = False, ErrorText = ''''\<rparr>"

definition new_ServiceAck :: ServiceAck where
  "new_ServiceAck = \<lparr>error_code = 0\<rparr>"

definition new_ServiceReply :: ServiceReply where
  "new_ServiceReply = \<lparr>url_entry = []\<rparr>"

definition new_ServiceRegistration :: ServiceRegistration where
  "new_ServiceRegistration =
     \<lparr>reg_url = '''', reg_scope = [], reg_lifetime = 0, reg_persistent = False\<rparr>"

definition new_ServiceDeRegistration :: ServiceDeRegistration where
  "new_ServiceDeRegistration = \<lparr>dereg_url = '''', dereg_scope = []\<rparr>"

definition new_ServiceRequest :: ServiceRequest where
  "new_ServiceRequest = \<lparr>req_service_type = '''', req_scope = []\<rparr>"

definition reg_add_scope :: "string \<Rightarrow> ServiceRegistration \<Rightarrow> ServiceRegistration" where
  "reg_add_scope x request = request\<lparr>reg_scope := reg_scope request @ [x]\<rparr>"

definition dereg_add_scope :: "string \<Rightarrow> ServiceDeRegistration \<Rightarrow> ServiceDeRegistration" where
  "dereg_add_scope x request = request\<lparr>dereg_scope := dereg_scope request @ [x]\<rparr>"

definition req_add_scope :: "string \<Rightarrow> ServiceRequest \<Rightarrow> ServiceRequest" where
  "req_add_scope x request = request\<lparr>req_scope := req_scope request @ [x]\<rparr>"

text \<open>
  \<open>GenericRegisterService\<close>. The iterator loop over \<open>scopes\<close> is a \<open>fold\<close> from the
  first scope to the last. The stub call is recorded with the request it was given and
  the argument record bound into its completion closure.
\<close>

definition GenericRegisterService ::
  "string list \<Rightarrow> string \<Rightarrow> 16 word \<Rightarrow> addr option \<Rightarrow> bool \<Rightarrow> SLPClientCore
     \<Rightarrow> bool \<times> SLPClientCore \<times> event list" where
  "GenericRegisterService scopes service lifetime_arg cb persistent s =
     (if \<not> m_connected s then (False, s, delete cb)
      else
        let controller = new_SimpleRpcController;
            request = new_ServiceRegistration;
            reply = new_ServiceAck;
            request = request\<lparr>reg_url := service\<rparr>;
            request = fold reg_add_scope scopes request;
            request = request\<lparr>reg_lifetime := lifetime_arg\<rparr>;
            request = request\<lparr>reg_persistent := persistent\<rparr>
        in (True, s, [Stub_RegisterService (m_stub s) request (NewArgs controller reply cb)]))"

definition RegisterService ::
  "string list \<Rightarrow> string \<Rightarrow> 16 word \<Rightarrow> addr option \<Rightarrow> SLPClientCore
     \<Rightarrow> bool \<times> SLPClientCore \<times> event list" where
  "RegisterService scopes service lifetime_arg cb s =
     GenericRegisterService scopes service lifetime_arg cb False s"

definition RegisterPersistentService ::
  "string list \<Rightarrow> string \<Rightarrow> 16 word \<Rightarrow> addr option \<Rightarrow> SLPClientCore
     \<Rightarrow> bool \<times> SLPClientCore \<times> event list" where
  "RegisterPersistentService scopes service lifetime_arg cb s =
     GenericRegisterService scopes service lifetime_arg cb True s"

definition DeRegisterService ::
  "string list \<Rightarrow> string \<Rightarrow> addr option \<Rightarrow> SLPClientCore
     \<Rightarrow> bool \<times> SLPClientCore \<times> event list" where
  "DeRegisterService scopes service cb s =
     (if \<not> m_connected s then (False, s, delete cb)
      else
        let controller = new_SimpleRpcController;
            request = new_ServiceDeRegistration;
            reply = new_ServiceAck;
            request = request\<lparr>dereg_url := service\<rparr>;
            request = fold dereg_add_scope scopes request
        in (True, s, [Stub_DeRegisterService (m_stub s) request (NewArgs controller reply cb)]))"

definition FindService ::
  "string list \<Rightarrow> string \<Rightarrow> addr option \<Rightarrow> SLPClientCore
     \<Rightarrow> bool \<times> SLPClientCore \<times> event list" where
  "FindService scopes service_type cb s =
     (if \<not> m_connected s then (False, s, delete cb)
      else
        let controller = new_SimpleRpcController;
            request = new_ServiceRequest;
            reply = new_ServiceReply;
            request = request\<lparr>req_service_type := service_type\<rparr>;
            request = fold req_add_scope scopes request
        in (True, s, [Stub_FindService (m_stub s) request (NewArgs controller reply cb)]))"

subsection \<open>RPC completion handlers\<close>

text \<open>
  \<open>HandleRegistration\<close>. The local \<open>response_code\<close> is declared without an initialiser
  and is assigned on the success branch only: the first argument is the indeterminate
  value the variable holds at its declaration. The assignment converts the reply's code
  to \<open>uint16_t\<close>.
\<close>

definition HandleRegistration :: "16 word \<Rightarrow> register_arg \<Rightarrow> event list" where
  "HandleRegistration indeterminate args =
     (let error_string = ''''; response_code = indeterminate in
      case callback args of
        None \<Rightarrow> [FreeArgs_register args]
      | Some cb \<Rightarrow>
          let (error_string, response_code) =
                (if Failed (controller args)
                 then (ErrorText (controller args), response_code)
                 else (error_string, ucast (error_code (reply args))))
          in [Run_register cb error_string response_code, FreeArgs_register args])"

text \<open>
  The \<open>for\<close> loop of \<open>HandleFindRequest\<close>, from index \<open>i\<close> on. The constructor of
  \<open>SLPService\<close> takes the entry's lifetime as a \<open>uint16_t\<close>.
\<close>

function push_url_entries :: "nat \<Rightarrow> ServiceReply \<Rightarrow> SLPService list \<Rightarrow> SLPService list" where
  "push_url_entries i r services =
     (if i < length (url_entry r)
      then
        let e = url_entry r ! i;
            slp_service = SLPService (url e) (ucast (lifetime e))
        in push_url_entries (i + 1) r (services @ [slp_service])
      else services)"
  by pat_completeness auto
termination
  by (relation "measure (\<lambda>(i, r, services). length (url_entry r) - i)") auto

declare push_url_entries.simps [simp del]

definition HandleFindRequest :: "find_arg \<Rightarrow> event list" where
  "HandleFindRequest args =
     (let error_string = ''''; services = [] in
      case callback args of
        None \<Rightarrow> [FreeArgs_find args]
      | Some cb \<Rightarrow>
          let (error_string, services) =
                (if Failed (controller args)
                 then (ErrorText (controller args), services)
                 else (error_string, push_url_entries 0 (reply args) services))
          in [Run_find cb error_string services, FreeArgs_find args])"

subsection \<open>Reading a member function's outcome\<close>

definition returned :: "bool \<times> SLPClientCore \<times> event list \<Rightarrow> bool" where
  "returned r = fst r"

definition client :: "bool \<times> SLPClientCore \<times> event list \<Rightarrow> SLPClientCore" where
  "client r = fst (snd r)"

definition events :: "bool \<times> SLPClientCore \<times> event list \<Rightarrow> event list" where
  "events r = snd (snd r)"

text \<open>A client on descriptor 0 after a \<open>Setup\<close> whose allocations gave addresses 1 and 2.\<close>

definition connected_client :: SLPClientCore where
  "connected_client = client (Setup (Some 1) (Some 2) (SLPClientCore 0))"

text \<open>
  Replies to a find request: one with two entries, and one whose entry has a lifetime
  of 65596 seconds.
\<close>

definition lamp_reply :: ServiceReply where
  "lamp_reply =
     \<lparr>url_entry = [\<lparr>url = ''service:lamp://1'', lifetime = 60\<rparr>,
                   \<lparr>url = ''service:lamp://2'', lifetime = 30\<rparr>]\<rparr>"

definition long_lived_reply :: ServiceReply where
  "long_lived_reply = \<lparr>url_entry = [\<lparr>url = ''service:lamp://1'', lifetime = 65596\<rparr>]\<rparr>"

section \<open>The root endpoint (tools/e133/RootEndpoint.h)\<close>

text \<open>
  The header declares \<open>SendRDMRequest\<close>, the handlers \<open>HandleEndpointList\<close>,
  \<open>HandleEndpointIdentify\<close>, \<open>HandleEndpointLabel\<close>, \<open>HandleTCPCommsStatus\<close> and
  \<open>HandleUnknownPID\<close>, and the helpers \<open>CheckForBroadcastSubdeviceOrData\<close> and
  \<open>RunRDMCallback\<close>. Their bodies (RootEndpoint.cpp) and the request and response
  classes are not among the sources, so each definition of this section is written from
  the specification's description of the command router (its sections 3 and 4.3).
\<close>

text \<open>
  Modelled from the spec: the request class, which the header only names. "Parameter ID,
  target sub-device index (0 = root device, non-zero = sub-device, a reserved value = all
  sub-devices), a broadcast flag, and a byte payload", "carrying get/set semantics".
\<close>

record ManagementRequest =
  ParamId :: nat
  SubDevice :: nat
  IsBroadcast :: bool
  IsSet :: bool
  ParamData :: "8 word list"

text \<open>
  Modelled from the spec: the response class, which the header only names. "ACK-with-data,
  ACK, or NACK-with-reason"; the reasons the specification names are "unsupported
  parameter" and "unknown parameter data".
\<close>

datatype nack_reason = Unsupported_parameter | Unknown_parameter_data | Other_reason nat

datatype ManagementResponse = ACK | ACK_with_data "8 word list" | NACK nack_reason

text \<open>
  Modelled from the spec: the constants and collaborators of the router that the header
  does not give. The four handled parameter IDs, the reserved sub-device value for
  "all sub-devices", the allow-list of parameters that may target all sub-devices, the
  parameters defined as taking no payload, and the response each of the four parameter
  handlers builds for a request ("a handler function with a uniform signature
  (request) -> response", with the handler's own validation inside it).
\<close>

record RootEndpoint =
  PID_ENDPOINT_LIST :: nat
  PID_ENDPOINT_IDENTIFY :: nat
  PID_ENDPOINT_LABEL :: nat
  PID_TCP_COMMS_STATUS :: nat
  ALL_SUB_DEVICES :: nat
  allows_all_sub_devices :: "nat \<Rightarrow> bool"
  takes_no_data :: "nat \<Rightarrow> bool"
  EndpointList_response :: "ManagementRequest \<Rightarrow> ManagementResponse"
  EndpointIdentify_response :: "ManagementRequest \<Rightarrow> ManagementResponse"
  EndpointLabel_response :: "ManagementRequest \<Rightarrow> ManagementResponse"
  TCPCommsStatus_response :: "ManagementRequest \<Rightarrow> ManagementResponse"

text \<open>
  A run of the router yields the invocations of the response continuation, in order;
  \<open>None\<close> is an invocation with no response object.
\<close>

text \<open>
  Modelled from the spec: \<open>RunRDMCallback\<close>, whose body is missing. It hands one
  response to the continuation.
\<close>

definition RunRDMCallback :: "ManagementResponse \<Rightarrow> ManagementResponse option list" where
  "RunRDMCallback response = [Some response]"

text \<open>
  Modelled from the spec: \<open>CheckForBroadcastSubdeviceOrData\<close>, whose body is missing.
  Step 1 of section 4.3: "reject if (request targets all sub-devices AND the parameter
  is not in the allow-list for that addressing) OR (request is broadcast AND carries a
  non-empty payload for a parameter defined as taking none)".
\<close>

definition CheckForBroadcastSubdeviceOrData :: "RootEndpoint \<Rightarrow> ManagementRequest \<Rightarrow> bool" where
  "CheckForBroadcastSubdeviceOrData ep request =
     ((SubDevice request = ALL_SUB_DEVICES ep \<and> \<not> allows_all_sub_devices ep (ParamId request))
      \<or> (IsBroadcast request \<and> ParamData request \<noteq> [] \<and> takes_no_data ep (ParamId request)))"

text \<open>
  Modelled from the spec: how a handler's response reaches the continuation, the handler
  bodies being missing. Section 3: "exactly one is produced per ManagementRequest, or
  none if the request was itself a broadcast"; section 4.3, step 3: the handler "hands
  it to the continuation exactly once".
\<close>

definition respond :: "ManagementRequest \<Rightarrow> ManagementResponse \<Rightarrow> ManagementResponse option list" where
  "respond request response = (if IsBroadcast request then [None] else RunRDMCallback response)"

text \<open>
  Modelled from the spec: \<open>HandleEndpointList\<close>, whose body is missing. The handler for
  the endpoint list builds its one response and hands it on.
\<close>

definition HandleEndpointList :: "RootEndpoint \<Rightarrow> ManagementRequest \<Rightarrow> ManagementResponse option list" where
  "HandleEndpointList ep request = respond request (EndpointList_response ep request)"

text \<open>
  Modelled from the spec: \<open>HandleEndpointIdentify\<close>, whose body is missing. The handler for
  the identify flag of an endpoint builds its one response and hands it on.
\<close>

definition HandleEndpointIdentify :: "RootEndpoint \<Rightarrow> ManagementRequest \<Rightarrow> ManagementResponse option list" where
  "HandleEndpointIdentify ep request = respond request (EndpointIdentify_response ep request)"

text \<open>
  Modelled from the spec: \<open>HandleEndpointLabel\<close>, whose body is missing. The handler for
  the label of an endpoint builds its one response and hands it on.
\<close>

definition HandleEndpointLabel :: "RootEndpoint \<Rightarrow> ManagementRequest \<Rightarrow> ManagementResponse option list" where
  "HandleEndpointLabel ep request = respond request (EndpointLabel_response ep request)"

text \<open>
  Modelled from the spec: \<open>HandleTCPCommsStatus\<close>, whose body is missing. The handler for
  the TCP communication status builds its one response and hands it on.
\<close>

definition HandleTCPCommsStatus :: "RootEndpoint \<Rightarrow> ManagementRequest \<Rightarrow> ManagementResponse option list" where
  "HandleTCPCommsStatus ep request = respond request (TCPCommsStatus_response ep request)"

text \<open>
  Modelled from the spec: \<open>HandleUnknownPID\<close>, whose body is missing. "Any parameter ID
  not in the above set is NACKed with unsupported parameter status."
\<close>

definition HandleUnknownPID :: "ManagementRequest \<Rightarrow> ManagementResponse option list" where
  "HandleUnknownPID request = respond request (NACK Unsupported_parameter)"

text \<open>
  Modelled from the spec: \<open>SendRDMRequest\<close>, whose body is missing. Step 1: on the
  rejection of a broadcast request "no response is produced and the continuation is
  invoked with no response object", while "for a non-broadcast request, the rejection
  path is itself handled inside each parameter handler, not centrally". Step 2: dispatch
  by parameter ID to the four handlers, any other ID to the unknown-parameter handler.
\<close>

definition SendRDMRequest :: "RootEndpoint \<Rightarrow> ManagementRequest \<Rightarrow> ManagementResponse option list" where
  "SendRDMRequest ep request =
     (if CheckForBroadcastSubdeviceOrData ep request \<and> IsBroadcast request then [None]
      else if ParamId request = PID_ENDPOINT_LIST ep then HandleEndpointList ep request
      else if ParamId request = PID_ENDPOINT_IDENTIFY ep then HandleEndpointIdentify ep request
      else if ParamId request = PID_ENDPOINT_LABEL ep then HandleEndpointLabel ep request
      else if ParamId request = PID_TCP_COMMS_STATUS ep then HandleTCPCommsStatus ep request
      else HandleUnknownPID request)"

text \<open>
  An endpoint for the examples: the four parameter IDs are 1 to 4, the reserved
  sub-device value is 65535, no parameter may target all sub-devices, every parameter
  takes no payload, and each of the four handlers acknowledges.
\<close>

definition example_endpoint :: RootEndpoint where
  "example_endpoint =
     \<lparr>PID_ENDPOINT_LIST = 1, PID_ENDPOINT_IDENTIFY = 2, PID_ENDPOINT_LABEL = 3,
      PID_TCP_COMMS_STATUS = 4, ALL_SUB_DEVICES = 65535,
      allows_all_sub_devices = (\<lambda>pid. False), takes_no_data = (\<lambda>pid. True),
      EndpointList_response = (\<lambda>request. ACK),
      EndpointIdentify_response = (\<lambda>request. ACK),
      EndpointLabel_response = (\<lambda>request. ACK),
      TCPCommsStatus_response = (\<lambda>request. ACK)\<rparr>"

section \<open>Properties of the SLP client core\<close>

subsection \<open>The loops\<close>

lemma fold_reg_add_scope:
  "fold reg_add_scope scopes r = r\<lparr>reg_scope := reg_scope r @ scopes\<rparr>"
  by (induction scopes arbitrary: r) (simp_all add: reg_add_scope_def)

lemma fold_dereg_add_scope:
  "fold dereg_add_scope scopes r = r\<lparr>dereg_scope := dereg_scope r @ scopes\<rparr>"
  by (induction scopes arbitrary: r) (simp_all add: dereg_add_scope_def)

lemma fold_req_add_scope:
  "fold req_add_scope scopes r = r\<lparr>req_scope := req_scope r @ scopes\<rparr>"
  by (induction scopes arbitrary: r) (simp_all add: req_add_scope_def)

lemma push_url_entries_drop:
  "push_url_entries i r acc =
     acc @ map (\<lambda>e. SLPService (url e) (ucast (lifetime e))) (drop i (url_entry r))"
proof (induction i r acc rule: push_url_entries.induct)
  case (1 i r services)
  show ?case
  proof (cases "i < length (url_entry r)")
    case True
    then have "drop i (url_entry r) = url_entry r ! i # drop (Suc i) (url_entry r)"
      by (simp add: Cons_nth_drop_Suc)
    with True "1.IH" show ?thesis
      by (subst push_url_entries.simps) (simp add: Let_def)
  next
    case False
    then show ?thesis by (subst push_url_entries.simps) simp
  qed
qed

subsection \<open>Connection lifecycle\<close>

text \<open>
  C8. \<open>Setup\<close> on a connected client returns false. A \<open>Setup\<close> that returns true started
  from a disconnected client and leaves it connected; and on a disconnected client
  \<open>Setup\<close> does return true when both allocations yield an object.
\<close>

theorem Setup_connected_fails_else_connects:
  "(m_connected s \<longrightarrow> \<not> returned (Setup nc ns s)) \<and>
   (returned (Setup nc ns s) \<longrightarrow> \<not> m_connected s \<and> m_connected (client (Setup nc ns s))) \<and>
   (\<not> m_connected s \<and> nc \<noteq> None \<and> ns \<noteq> None \<longrightarrow> returned (Setup nc ns s))"
  by (auto simp: Setup_def Let_def returned_def client_def)

theorem Setup_connected_fails_else_connects_witness:
  "m_connected connected_client \<and>
   \<not> returned (Setup (Some 3) (Some 4) connected_client) \<and>
   \<not> m_connected (SLPClientCore 0) \<and>
   returned (Setup (Some 1) (Some 2) (SLPClientCore 0)) \<and>
   m_connected (client (Setup (Some 1) (Some 2) (SLPClientCore 0)))"
  using Setup_connected_fails_else_connects [of connected_client "Some 3" "Some 4"]
    Setup_connected_fails_else_connects [of "SLPClientCore 0" "Some 1" "Some 2"]
  by (simp add: connected_client_def Setup_def SLPClientCore_def new_def
      returned_def client_def)

text \<open>
  C9. A \<open>Setup\<close> that returns false leaves \<open>m_connected\<close> as it was, and every object it
  allocated has been deleted again when it returns. On a connected client it changes
  nothing and does nothing. On a disconnected client whose channel allocation gave
  \<open>c\<close>, the failure is the stub's: the stub pointer is null and the channel \<open>c\<close> was
  allocated and then deleted. (The field \<open>m_channel\<close> is not reset there; it keeps the
  address of the deleted channel.)
\<close>

theorem Setup_failure_atomic:
  assumes "\<not> returned (Setup nc ns s)"
  shows "m_connected (client (Setup nc ns s)) = m_connected s \<and>
         outstanding (events (Setup nc ns s)) = [] \<and>
         (m_connected s \<longrightarrow> client (Setup nc ns s) = s \<and> events (Setup nc ns s) = []) \<and>
         (\<forall>c. \<not> m_connected s \<and> nc = Some c \<longrightarrow>
            m_stub (client (Setup nc ns s)) = None \<and>
            events (Setup nc ns s) = [New c, Delete c])"
  using assms
  by (auto simp: Setup_def Let_def returned_def client_def events_def new_def delete_def
      split: if_splits option.splits)

theorem Setup_failure_atomic_witness:
  "\<not> returned (Setup (Some 1) None (SLPClientCore 0)) \<and>
   m_connected (client (Setup (Some 1) None (SLPClientCore 0))) = m_connected (SLPClientCore 0) \<and>
   outstanding (events (Setup (Some 1) None (SLPClientCore 0))) = [] \<and>
   events (Setup (Some 1) None (SLPClientCore 0)) = [New 1, Delete 1] \<and>
   \<not> returned (Setup (Some 3) (Some 4) connected_client) \<and>
   client (Setup (Some 3) (Some 4) connected_client) = connected_client"
  using Setup_failure_atomic [of "Some 1" None "SLPClientCore 0"]
    Setup_failure_atomic [of "Some 3" "Some 4" connected_client]
  by (simp add: connected_client_def Setup_def SLPClientCore_def new_def delete_def
      returned_def client_def events_def)

text \<open>
  C3. \<open>Stop\<close> on a connected client, and \<open>Stop\<close> again on the result: the client is
  disconnected after each call, and each call returns false, the value of \<open>return 0\<close>,
  where the function's comment promises true on success.
\<close>

theorem Stop_twice_returns_false:
  "m_connected connected_client \<and>
   returned (Stop connected_client) = False \<and>
   m_connected (client (Stop connected_client)) = False \<and>
   returned (Stop (client (Stop connected_client))) = False \<and>
   m_connected (client (Stop (client (Stop connected_client)))) = False"
  by (simp add: connected_client_def Setup_def Stop_def SLPClientCore_def new_def delete_def
      returned_def client_def events_def)

subsection \<open>Issuing requests\<close>

text \<open>
  C2. On a disconnected client each of \<open>RegisterService\<close>, \<open>RegisterPersistentService\<close>,
  \<open>DeRegisterService\<close> and \<open>FindService\<close> returns false, leaves the client as it was,
  runs no callback and calls no stub method: all it does is \<open>delete callback\<close>, which
  for a callback at address \<open>a\<close> is the deletion of \<open>a\<close>.
\<close>

theorem disconnected_operations_fail_and_release:
  assumes "\<not> m_connected s"
  shows "list_all
           (\<lambda>r. \<not> returned r \<and> client r = s \<and> filter is_Run (events r) = [] \<and>
                filter is_Stub_call (events r) = [] \<and> events r = delete cb)
           [RegisterService scopes service lt cb s,
            RegisterPersistentService scopes service lt cb s,
            DeRegisterService scopes service cb s,
            FindService scopes service cb s] \<and>
         (\<forall>a. cb = Some a \<longrightarrow> delete cb = [Delete a])"
  using assms
  by (simp add: RegisterService_def RegisterPersistentService_def GenericRegisterService_def
      DeRegisterService_def FindService_def returned_def client_def events_def delete_def
      split: option.splits)

theorem disconnected_operations_fail_and_release_witness:
  "\<not> m_connected (SLPClientCore 0) \<and>
   RegisterService [''default''] ''service:lamp://x'' 300 (Some 7) (SLPClientCore 0)
     = (False, SLPClientCore 0, [Delete 7]) \<and>
   RegisterPersistentService [''default''] ''service:lamp://x'' 300 (Some 7) (SLPClientCore 0)
     = (False, SLPClientCore 0, [Delete 7]) \<and>
   DeRegisterService [''default''] ''service:lamp://x'' (Some 7) (SLPClientCore 0)
     = (False, SLPClientCore 0, [Delete 7]) \<and>
   FindService [''default''] ''service:lamp://x'' (Some 7) (SLPClientCore 0)
     = (False, SLPClientCore 0, [Delete 7])"
  using disconnected_operations_fail_and_release
    [of "SLPClientCore 0" "Some 7" "[''default'']" "''service:lamp://x''" 300]
  by (simp add: RegisterService_def RegisterPersistentService_def GenericRegisterService_def
      DeRegisterService_def FindService_def SLPClientCore_def delete_def)

text \<open>
  C5. On a connected client \<open>RegisterService\<close> and \<open>RegisterPersistentService\<close> return
  true and make one call of the stub's \<open>RegisterService\<close>, with a request whose URL,
  scopes (in the caller's order) and lifetime are the caller's, and whose persistent flag
  is false for the first and true for the second.
\<close>

theorem register_request_carries_arguments:
  assumes "m_connected s"
  shows "RegisterService scopes service lt cb s =
           (True, s,
            [Stub_RegisterService (m_stub s)
               \<lparr>reg_url = service, reg_scope = scopes, reg_lifetime = lt,
                reg_persistent = False\<rparr>
               (NewArgs new_SimpleRpcController new_ServiceAck cb)]) \<and>
         RegisterPersistentService scopes service lt cb s =
           (True, s,
            [Stub_RegisterService (m_stub s)
               \<lparr>reg_url = service, reg_scope = scopes, reg_lifetime = lt,
                reg_persistent = True\<rparr>
               (NewArgs new_SimpleRpcController new_ServiceAck cb)])"
  using assms
  by (simp add: RegisterService_def RegisterPersistentService_def GenericRegisterService_def
      fold_reg_add_scope new_ServiceRegistration_def)

theorem register_request_carries_arguments_witness:
  "m_connected connected_client \<and>
   events (RegisterService [''default''] ''service:lamp://x'' 300 (Some 7) connected_client) =
     [Stub_RegisterService (Some 2)
        \<lparr>reg_url = ''service:lamp://x'', reg_scope = [''default''], reg_lifetime = 300,
         reg_persistent = False\<rparr>
        \<lparr>controller = \<lparr>Failed = False, ErrorText = ''''\<rparr>,
         reply = \<lparr>error_code = 0\<rparr>, callback = Some 7\<rparr>]"
  using register_request_carries_arguments
    [of connected_client "[''default'']" "''service:lamp://x''" 300 "Some 7"]
  by (simp add: connected_client_def Setup_def SLPClientCore_def new_def client_def events_def
      NewArgs_def new_SimpleRpcController_def new_ServiceAck_def)

subsection \<open>RPC completion handlers\<close>

text \<open>
  C1, as stated, fails where the controller has failed with an empty error text: both
  handlers pass \<open>ErrorText()\<close> on as it is, so the callback is run with the empty
  error description.
\<close>

theorem failed_call_with_empty_error_text:
  "Failed (controller \<lparr>controller = \<lparr>Failed = True, ErrorText = ''''\<rparr>,
                        reply = \<lparr>error_code = 0\<rparr>, callback = Some 7\<rparr>) \<and>
   filter is_Run
     (HandleRegistration 0
        \<lparr>controller = \<lparr>Failed = True, ErrorText = ''''\<rparr>,
         reply = \<lparr>error_code = 0\<rparr>, callback = Some 7\<rparr>) = [Run_register 7 [] 0] \<and>
   filter is_Run
     (HandleFindRequest
        \<lparr>controller = \<lparr>Failed = True, ErrorText = ''''\<rparr>,
         reply = lamp_reply, callback = Some 7\<rparr>) = [Run_find 7 [] []]"
  by (simp add: HandleRegistration_def HandleFindRequest_def)

text \<open>
  C1, amended. \<open>HandleRegistration\<close> (for register and deregister calls) and
  \<open>HandleFindRequest\<close>: with no callback, no callback is run; with a callback, it is run
  exactly once, on a failed controller with the controller's error text as it is and the
  result variable as it was declared (the indeterminate code, the empty list of
  services), otherwise with the empty error text and the decoded reply (its error code
  converted to \<open>uint16_t\<close>, its entries as services). On every path the argument record
  is released exactly once, as the last thing the handler does.
\<close>

theorem completion_handlers:
  "(callback args = None \<longrightarrow> filter is_Run (HandleRegistration u args) = []) \<and>
   (\<forall>cb. callback args = Some cb \<and> Failed (controller args) \<longrightarrow>
      filter is_Run (HandleRegistration u args) =
        [Run_register cb (ErrorText (controller args)) u]) \<and>
   (\<forall>cb. callback args = Some cb \<and> \<not> Failed (controller args) \<longrightarrow>
      filter is_Run (HandleRegistration u args) =
        [Run_register cb '''' (ucast (error_code (reply args)))]) \<and>
   filter is_FreeArgs (HandleRegistration u args) = [FreeArgs_register args] \<and>
   last (HandleRegistration u args) = FreeArgs_register args \<and>
   (callback fargs = None \<longrightarrow> filter is_Run (HandleFindRequest fargs) = []) \<and>
   (\<forall>cb. callback fargs = Some cb \<and> Failed (controller fargs) \<longrightarrow>
      filter is_Run (HandleFindRequest fargs) =
        [Run_find cb (ErrorText (controller fargs)) []]) \<and>
   (\<forall>cb. callback fargs = Some cb \<and> \<not> Failed (controller fargs) \<longrightarrow>
      filter is_Run (HandleFindRequest fargs) =
        [Run_find cb ''''
           (map (\<lambda>e. SLPService (url e) (ucast (lifetime e))) (url_entry (reply fargs)))]) \<and>
   filter is_FreeArgs (HandleFindRequest fargs) = [FreeArgs_find fargs] \<and>
   last (HandleFindRequest fargs) = FreeArgs_find fargs"
  by (simp add: HandleRegistration_def HandleFindRequest_def push_url_entries_drop
      split: option.split)

theorem completion_handlers_witness:
  "filter is_Run
     (HandleRegistration 9
        \<lparr>controller = \<lparr>Failed = True, ErrorText = ''timeout''\<rparr>,
         reply = \<lparr>error_code = 0\<rparr>, callback = Some 7\<rparr>) = [Run_register 7 ''timeout'' 9] \<and>
   filter is_Run
     (HandleRegistration 9
        \<lparr>controller = \<lparr>Failed = False, ErrorText = ''''\<rparr>,
         reply = \<lparr>error_code = 3\<rparr>, callback = Some 7\<rparr>) = [Run_register 7 '''' 3] \<and>
   filter is_Run
     (HandleRegistration 9
        \<lparr>controller = \<lparr>Failed = False, ErrorText = ''''\<rparr>,
         reply = \<lparr>error_code = 3\<rparr>, callback = None\<rparr>) = [] \<and>
   filter is_Run
     (HandleFindRequest
        \<lparr>controller = \<lparr>Failed = True, ErrorText = ''timeout''\<rparr>,
         reply = lamp_reply, callback = Some 7\<rparr>) = [Run_find 7 ''timeout'' []] \<and>
   filter is_Run
     (HandleFindRequest
        \<lparr>controller = \<lparr>Failed = False, ErrorText = ''''\<rparr>,
         reply = lamp_reply, callback = Some 7\<rparr>) =
     [Run_find 7 '''' [SLPService ''service:lamp://1'' 60, SLPService ''service:lamp://2'' 30]] \<and>
   filter is_Run
     (HandleFindRequest
        \<lparr>controller = \<lparr>Failed = False, ErrorText = ''''\<rparr>,
         reply = lamp_reply, callback = None\<rparr>) = []"
  using
    completion_handlers
      [of "\<lparr>controller = \<lparr>Failed = True, ErrorText = ''timeout''\<rparr>,
            reply = \<lparr>error_code = 0\<rparr>, callback = Some 7\<rparr>" 9
          "\<lparr>controller = \<lparr>Failed = True, ErrorText = ''timeout''\<rparr>,
            reply = lamp_reply, callback = Some 7\<rparr>"]
    completion_handlers
      [of "\<lparr>controller = \<lparr>Failed = False, ErrorText = ''''\<rparr>,
            reply = \<lparr>error_code = 3\<rparr>, callback = Some 7\<rparr>" 9
          "\<lparr>controller = \<lparr>Failed = False, ErrorText = ''''\<rparr>,
            reply = lamp_reply, callback = Some 7\<rparr>"]
    completion_handlers
      [of "\<lparr>controller = \<lparr>Failed = False, ErrorText = ''''\<rparr>,
            reply = \<lparr>error_code = 3\<rparr>, callback = None\<rparr>" 9
          "\<lparr>controller = \<lparr>Failed = False, ErrorText = ''''\<rparr>,
            reply = lamp_reply, callback = None\<rparr>"]
  by (simp add: lamp_reply_def)

text \<open>
  C4, as stated, fails on lifetimes: the reply's entry holds a 32-bit lifetime and the
  \<open>SLPService\<close> built from it a 16-bit one, so an entry with a lifetime of 65596 seconds
  is delivered as a service with a lifetime of 60 seconds.
\<close>

theorem find_reply_lifetime_narrowed:
  "url_entry long_lived_reply = [\<lparr>url = ''service:lamp://1'', lifetime = 65596\<rparr>] \<and>
   unat (65596 :: 32 word) = 65596 \<and>
   filter is_Run
     (HandleFindRequest
        \<lparr>controller = \<lparr>Failed = False, ErrorText = ''''\<rparr>, reply = long_lived_reply,
         callback = Some 7\<rparr>) =
     [Run_find 7 '''' [SLPService ''service:lamp://1'' 60]] \<and>
   unat (60 :: 16 word) = 60"
  by (simp add: HandleFindRequest_def push_url_entries_drop long_lived_reply_def)

text \<open>
  C4, amended. When the call has not failed, \<open>HandleFindRequest\<close> runs the callback
  with the empty error text and one \<open>SLPService\<close> for each entry of the reply, in the
  reply's order: nothing is dropped, merged or reordered. The URLs delivered are the
  entries' URLs, and the lifetimes delivered are the entries' lifetimes modulo 65536, so
  the entry's own lifetime wherever that is below 65536.
\<close>

theorem find_reply_order_preserved:
  assumes "callback args = Some cb" and "\<not> Failed (controller args)"
  shows "HandleFindRequest args =
           [Run_find cb ''''
              (map (\<lambda>e. SLPService (url e) (ucast (lifetime e))) (url_entry (reply args))),
            FreeArgs_find args] \<and>
         map service_url
           (map (\<lambda>e. SLPService (url e) (ucast (lifetime e))) (url_entry (reply args))) =
           map url (url_entry (reply args)) \<and>
         map (\<lambda>s. unat (service_lifetime s))
           (map (\<lambda>e. SLPService (url e) (ucast (lifetime e))) (url_entry (reply args))) =
           map (\<lambda>e. unat (lifetime e) mod 65536) (url_entry (reply args)) \<and>
         (\<forall>e :: URLEntry. unat (lifetime e) < 65536 \<longrightarrow>
            unat (service_lifetime (SLPService (url e) (ucast (lifetime e)))) =
              unat (lifetime e))"
  using assms
  by (simp add: HandleFindRequest_def push_url_entries_drop comp_def unsigned_ucast_eq
      take_bit_eq_mod)

theorem find_reply_order_preserved_witness:
  "unat (60 :: 32 word) < 65536 \<and> unat (30 :: 32 word) < 65536 \<and>
   filter is_Run
     (HandleFindRequest
        \<lparr>controller = \<lparr>Failed = False, ErrorText = ''''\<rparr>, reply = lamp_reply,
         callback = Some 7\<rparr>) =
     [Run_find 7 '''' [SLPService ''service:lamp://1'' 60, SLPService ''service:lamp://2'' 30]]"
proof -
  have "HandleFindRequest
          \<lparr>controller = \<lparr>Failed = False, ErrorText = ''''\<rparr>, reply = lamp_reply,
           callback = Some 7\<rparr> =
        [Run_find 7 ''''
           [SLPService ''service:lamp://1'' 60, SLPService ''service:lamp://2'' 30],
         FreeArgs_find
           \<lparr>controller = \<lparr>Failed = False, ErrorText = ''''\<rparr>, reply = lamp_reply,
            callback = Some 7\<rparr>]"
    using find_reply_order_preserved
      [of "\<lparr>controller = \<lparr>Failed = False, ErrorText = ''''\<rparr>, reply = lamp_reply,
           callback = Some 7\<rparr>" 7]
    by (simp add: lamp_reply_def)
  then show ?thesis by simp
qed

text \<open>
  C10. When the call has failed, \<open>HandleFindRequest\<close> runs the callback with the
  controller's error text and the empty list of services, whatever entries the reply
  holds.
\<close>

theorem failed_find_delivers_no_services:
  assumes "callback args = Some cb" and "Failed (controller args)"
  shows "HandleFindRequest args =
           [Run_find cb (ErrorText (controller args)) [], FreeArgs_find args]"
  using assms by (simp add: HandleFindRequest_def)

theorem failed_find_delivers_no_services_witness:
  "url_entry lamp_reply \<noteq> [] \<and>
   filter is_Run
     (HandleFindRequest
        \<lparr>controller = \<lparr>Failed = True, ErrorText = ''timeout''\<rparr>, reply = lamp_reply,
         callback = Some 7\<rparr>) =
     [Run_find 7 ''timeout'' []]"
  using failed_find_delivers_no_services
    [of "\<lparr>controller = \<lparr>Failed = True, ErrorText = ''timeout''\<rparr>, reply = lamp_reply,
         callback = Some 7\<rparr>" 7]
  by (simp add: lamp_reply_def)

section \<open>Properties of the root endpoint\<close>

text \<open>
  C6. A broadcast request, whatever its parameter ID, sub-device and payload, gets no
  response object: the continuation is invoked once, with no response.
\<close>

theorem broadcast_never_answered:
  assumes "IsBroadcast request"
  shows "SendRDMRequest ep request = [None]"
  using assms
  by (simp add: SendRDMRequest_def HandleEndpointList_def HandleEndpointIdentify_def
      HandleEndpointLabel_def HandleTCPCommsStatus_def HandleUnknownPID_def respond_def)

theorem broadcast_never_answered_witness:
  "SendRDMRequest example_endpoint
     \<lparr>ParamId = 3, SubDevice = 0, IsBroadcast = True, IsSet = True, ParamData = [1, 2]\<rparr> = [None] \<and>
   SendRDMRequest example_endpoint
     \<lparr>ParamId = 3, SubDevice = 0, IsBroadcast = True, IsSet = False, ParamData = []\<rparr> = [None] \<and>
   SendRDMRequest example_endpoint
     \<lparr>ParamId = 99, SubDevice = 0, IsBroadcast = True, IsSet = False, ParamData = []\<rparr> = [None]"
  using
    broadcast_never_answered
      [of "\<lparr>ParamId = 3, SubDevice = 0, IsBroadcast = True, IsSet = True, ParamData = [1, 2]\<rparr>"
          example_endpoint]
    broadcast_never_answered
      [of "\<lparr>ParamId = 3, SubDevice = 0, IsBroadcast = True, IsSet = False, ParamData = []\<rparr>"
          example_endpoint]
    broadcast_never_answered
      [of "\<lparr>ParamId = 99, SubDevice = 0, IsBroadcast = True, IsSet = False, ParamData = []\<rparr>"
          example_endpoint]
  by simp

text \<open>
  C7. A request that is not a broadcast and whose parameter ID is none of the four
  handled ones goes to \<open>HandleUnknownPID\<close>, and the continuation is invoked once, with a
  NACK whose reason is "unsupported parameter".
\<close>

theorem unknown_pid_nacked:
  assumes "\<not> IsBroadcast request"
    and "ParamId request \<noteq> PID_ENDPOINT_LIST ep"
    and "ParamId request \<noteq> PID_ENDPOINT_IDENTIFY ep"
    and "ParamId request \<noteq> PID_ENDPOINT_LABEL ep"
    and "ParamId request \<noteq> PID_TCP_COMMS_STATUS ep"
  shows "SendRDMRequest ep request = HandleUnknownPID request \<and>
         HandleUnknownPID request = [Some (NACK Unsupported_parameter)]"
  using assms
  by (simp add: SendRDMRequest_def HandleUnknownPID_def respond_def RunRDMCallback_def)

theorem unknown_pid_nacked_witness:
  "SendRDMRequest example_endpoint
     \<lparr>ParamId = 99, SubDevice = 0, IsBroadcast = False, IsSet = False, ParamData = []\<rparr> =
     [Some (NACK Unsupported_parameter)]"
  using
    unknown_pid_nacked
      [of "\<lparr>ParamId = 99, SubDevice = 0, IsBroadcast = False, IsSet = False, ParamData = []\<rparr>"
          example_endpoint]
  by (simp add: example_endpoint_def)

end
